theory Spec2Isabelle
  imports Complex_Main
begin

section \<open>Wind-tunnel data reduction (dataProcess.py)\<close>

text \<open>
  The Python floats of the program are modelled as exact reals: rounding, overflow and
  the special float values are outside this development. Everything else follows the
  source: every list read is a checked read, every loop runs over the indices of
  \<open>range\<close>, and every exception is a value of the type \<open>error\<close>.
\<close>

subsection \<open>Exceptions and checked reads\<close>

text \<open>
  \<open>LookupError\<close> is Python's common base class of the IndexError of a list and the
  KeyError of a pandas Series, both raised by a read at a position that does not exist.
\<close>

datatype error = LookupError | ValueError | ZeroDivisionError

definition ebind :: "error + 'a \<Rightarrow> ('a \<Rightarrow> error + 'b) \<Rightarrow> error + 'b" where
  "ebind m f = (case m of Inl e \<Rightarrow> Inl e | Inr x \<Rightarrow> f x)"

definition index :: "'a list \<Rightarrow> nat \<Rightarrow> error + 'a" where
  "index xs i = (if i < length xs then Inr (xs ! i) else Inl LookupError)"

definition store :: "'a list \<Rightarrow> nat \<Rightarrow> 'a \<Rightarrow> error + 'a list" where
  "store xs i v = (if i < length xs then Inr (xs[i := v]) else Inl LookupError)"

definition py_sqrt :: "real \<Rightarrow> error + real" where
  "py_sqrt x = (if x < 0 then Inl ValueError else Inr (sqrt x))"

definition py_div :: "real \<Rightarrow> real \<Rightarrow> error + real" where
  "py_div x d = (if d = 0 then Inl ZeroDivisionError else Inr (x / d))"

subsection \<open>Global constant\<close>

definition psf2pa :: real where
  "psf2pa = 0.020885"

subsection \<open>q2v\<close>

definition q2v_T :: real where "q2v_T = 296.15"
definition q2v_p :: real where "q2v_p = 100914"
definition q2v_R :: real where "q2v_R = 287"

primrec q2v_loop :: "nat list \<Rightarrow> real list \<Rightarrow> real list \<Rightarrow> error + real list" where
  "q2v_loop [] q vel = Inr vel"
| "q2v_loop (i # is) q vel =
     ebind (index q i) (\<lambda>qi.
     ebind (py_sqrt ((2 * \<bar>qi / psf2pa\<bar> * q2v_R * q2v_T) / q2v_p)) (\<lambda>v.
     ebind (store vel i v) (\<lambda>vel'.
     q2v_loop is q vel')))"

definition q2v :: "real list \<Rightarrow> error + real list" where
  "q2v q = q2v_loop [0..<length q] q (replicate (length q) 0)"

subsection \<open>force2coeff\<close>

definition force2coeff_S :: real where "force2coeff_S = 0.01"

primrec force2coeff_loop ::
  "nat list \<Rightarrow> real list \<Rightarrow> real list \<Rightarrow> real option list \<Rightarrow> error + real option list" where
  "force2coeff_loop [] force q coefficient = Inr coefficient"
| "force2coeff_loop (i # is) force q coefficient =
     ebind (index q i) (\<lambda>qi.
       if qi = 0 then
         ebind (store coefficient i None) (\<lambda>c'. force2coeff_loop is force q c')
       else
         ebind (index force i) (\<lambda>fi.
         ebind (py_div fi (qi * force2coeff_S)) (\<lambda>v.
         ebind (store coefficient i (Some v)) (\<lambda>c'.
         force2coeff_loop is force q c'))))"

definition force2coeff :: "real list \<Rightarrow> real list \<Rightarrow> error + real option list" where
  "force2coeff force q =
     force2coeff_loop [0..<length force] force q (replicate (length force) (Some 0))"

subsection \<open>NA2LD\<close>

text \<open>
  The three names \<open>liftForce\<close>, \<open>dragForce\<close> and \<open>alphaRad\<close> of the source are
  references to list objects, and the assignments \<open>dragForce = liftForce\<close> and
  \<open>alphaRad = liftForce\<close> copy the reference, not the list. The model therefore keeps
  the lists in a heap, addressed by natural numbers, and the loop body reads and writes
  through the references it is given.
\<close>

type_synonym ref = nat
type_synonym heap = "ref \<Rightarrow> real list"

definition heap_read :: "heap \<Rightarrow> ref \<Rightarrow> nat \<Rightarrow> error + real" where
  "heap_read h r i = index (h r) i"

definition heap_write :: "heap \<Rightarrow> ref \<Rightarrow> nat \<Rightarrow> real \<Rightarrow> error + heap" where
  "heap_write h r i v = ebind (store (h r) i v) (\<lambda>xs. Inr (h(r := xs)))"

definition radians :: "real \<Rightarrow> real" where
  "radians x = x * (pi / 180)"

definition NA2LD_body ::
  "nat \<Rightarrow> real list \<Rightarrow> real list \<Rightarrow> real list \<Rightarrow> ref \<Rightarrow> ref \<Rightarrow> ref \<Rightarrow> heap \<Rightarrow> error + heap" where
  "NA2LD_body i N A alphaDeg liftForce dragForce alphaRad h =
     ebind (index alphaDeg i) (\<lambda>a.
     ebind (heap_write h alphaRad i (radians a)) (\<lambda>h1.
     ebind (index N i) (\<lambda>n1.
     ebind (heap_read h1 alphaRad i) (\<lambda>r1.
     ebind (index A i) (\<lambda>a1.
     ebind (heap_read h1 alphaRad i) (\<lambda>r2.
     ebind (heap_write h1 liftForce i (n1 * cos r1 - a1 * sin r2)) (\<lambda>h2.
     ebind (index N i) (\<lambda>n2.
     ebind (heap_read h2 alphaRad i) (\<lambda>r3.
     ebind (index A i) (\<lambda>a2.
     ebind (heap_read h2 alphaRad i) (\<lambda>r4.
     heap_write h2 dragForce i (n2 * sin r3 + a2 * cos r4))))))))))))"

primrec NA2LD_loop ::
  "nat list \<Rightarrow> real list \<Rightarrow> real list \<Rightarrow> real list \<Rightarrow> ref \<Rightarrow> ref \<Rightarrow> ref \<Rightarrow> heap \<Rightarrow> error + heap" where
  "NA2LD_loop [] N A alphaDeg liftForce dragForce alphaRad h = Inr h"
| "NA2LD_loop (i # is) N A alphaDeg liftForce dragForce alphaRad h =
     ebind (NA2LD_body i N A alphaDeg liftForce dragForce alphaRad h) (\<lambda>h'.
     NA2LD_loop is N A alphaDeg liftForce dragForce alphaRad h')"

definition NA2LD :: "real list \<Rightarrow> real list \<Rightarrow> real list \<Rightarrow> error + (real list \<times> real list)" where
  "NA2LD N A alphaDeg =
     (let n = length N;
          liftForce = (0::ref);
          h0 = (\<lambda>_. [])(liftForce := replicate n 0);
          dragForce = liftForce;
          alphaRad = liftForce
      in ebind (NA2LD_loop [0..<n] N A alphaDeg liftForce dragForce alphaRad h0) (\<lambda>h.
         Inr (h liftForce, h dragForce)))"

subsection \<open>momentTransfer\<close>

definition momentTransfer_A :: real where "momentTransfer_A = 28.829 / 1000"
definition momentTransfer_D :: real where "momentTransfer_D = 71.04 / 1000"

primrec momentTransfer_loop ::
  "nat list \<Rightarrow> real list \<Rightarrow> real list \<Rightarrow> real \<Rightarrow> real list \<Rightarrow> error + real list" where
  "momentTransfer_loop [] moment normal C new_moment = Inr new_moment"
| "momentTransfer_loop (i # is) moment normal C new_moment =
     ebind (index moment i) (\<lambda>m.
     ebind (index normal i) (\<lambda>nf.
     ebind (store new_moment i (m - (momentTransfer_A + C) * nf)) (\<lambda>new_moment'.
     momentTransfer_loop is moment normal C new_moment')))"

definition momentTransfer :: "real list \<Rightarrow> real list \<Rightarrow> real \<Rightarrow> error + real list" where
  "momentTransfer moment normal b =
     (let n = length moment;
          C = momentTransfer_D - (b / 1000)
      in momentTransfer_loop [0..<n] moment normal C (replicate n 0))"

subsection \<open>datasplit\<close>

text \<open>
  A data frame is the table read from one file; only the five columns that datasplit
  reads are kept. The class \<open>Data\<close> is a record, and an element of the result list is
  either the integer 0 it was initialised with or a \<open>Data\<close> object.
\<close>

record frame =
  col_Alpha :: "real list"
  col_NF_SF :: "real list"
  col_AF_AF2 :: "real list"
  col_PM_YM :: "real list"
  col_q :: "real list"

record Data =
  X :: "real list"
  NF :: "real list"
  AF :: "real list"
  PM :: "real list"
  CL :: "real option list"
  CD :: "real option list"

datatype slot = Zero | Obj Data

text \<open>A column times, or divided by, a scalar: the element-wise operation of a Series.\<close>

definition series_mul :: "real list \<Rightarrow> real \<Rightarrow> real list" where
  "series_mul xs k = map (\<lambda>x. x * k) xs"

definition series_div :: "real list \<Rightarrow> real \<Rightarrow> real list" where
  "series_div xs k = map (\<lambda>x. x / k) xs"

definition diameters :: "real list" where
  "diameters = [74.82, 74.82, 75.48, 75.40, 76.21]"

definition B :: "real list" where
  "B = [98.42, 98.42, 99.27, 127.00, 146.92]"

definition lbf2N :: real where "lbf2N = 4.44822"
definition inlbs2Nm :: real where "inlbs2Nm = 0.1129848333"

text \<open>
  The source builds each object with \<open>list[i] = Data(...)\<close> and then replaces its field
  with \<open>list[i].PM = momentTransfer(list[i].PM, list[i].NF, B[i])\<close>. The two statements
  are one function here, \<open>datasplit_angle\<close> for the first table and
  \<open>datasplit_velocity\<close> for the others, which returns the object after the replacement;
  the list is local to datasplit, so an exception between the two statements leaves
  nothing behind. The arguments are evaluated in the order of the source.
\<close>

definition datasplit_angle :: "frame \<Rightarrow> error + Data" where
  "datasplit_angle d =
     ebind (NA2LD (series_mul (col_NF_SF d) lbf2N) (series_mul (col_AF_AF2 d) lbf2N)
                  (col_Alpha d)) (\<lambda>(lF, dF).
     ebind (force2coeff lF (series_div (col_q d) psf2pa)) (\<lambda>cl.
     ebind (force2coeff dF (series_div (col_q d) psf2pa)) (\<lambda>cd.
     let obj = \<lparr>X = col_Alpha d,
                NF = series_mul (col_NF_SF d) lbf2N,
                AF = series_mul (col_AF_AF2 d) lbf2N,
                PM = series_mul (col_PM_YM d) inlbs2Nm,
                CL = cl, CD = cd\<rparr>
     in ebind (index B 0) (\<lambda>b.
        ebind (momentTransfer (PM obj) (NF obj) b) (\<lambda>pm.
        Inr (obj\<lparr>PM := pm\<rparr>))))))"

definition datasplit_velocity :: "frame \<Rightarrow> nat \<Rightarrow> error + Data" where
  "datasplit_velocity d i =
     ebind (q2v (col_q d)) (\<lambda>vel.
     ebind (force2coeff (series_mul (col_NF_SF d) lbf2N) (series_div (col_q d) psf2pa)) (\<lambda>cl.
     ebind (force2coeff (series_mul (col_AF_AF2 d) lbf2N) (series_div (col_q d) psf2pa)) (\<lambda>cd.
     let obj = \<lparr>X = vel,
                NF = series_mul (col_NF_SF d) lbf2N,
                AF = series_mul (col_AF_AF2 d) lbf2N,
                PM = series_mul (col_PM_YM d) inlbs2Nm,
                CL = cl, CD = cd\<rparr>
     in ebind (index B i) (\<lambda>b.
        ebind (momentTransfer (PM obj) (NF obj) b) (\<lambda>pm.
        Inr (obj\<lparr>PM := pm\<rparr>))))))"

primrec datasplit_loop :: "nat list \<Rightarrow> frame list \<Rightarrow> slot list \<Rightarrow> error + slot list" where
  "datasplit_loop [] data lst = Inr lst"
| "datasplit_loop (i # is) data lst =
     ebind (index data i) (\<lambda>d.
     ebind (datasplit_velocity d i) (\<lambda>obj.
     ebind (store lst i (Obj obj)) (\<lambda>lst'.
     datasplit_loop is data lst')))"

definition datasplit :: "frame list \<Rightarrow> error + slot list" where
  "datasplit data =
     (let n = length data
      in ebind (index data 0) (\<lambda>d.
         ebind (datasplit_angle d) (\<lambda>obj.
         ebind (store (replicate n Zero) 0 (Obj obj)) (\<lambda>lst.
         datasplit_loop [1..<n] data lst))))"

subsection \<open>Well-formed input tables\<close>

text \<open>
  Not a function of the source: the property of a table read by pandas that all its
  columns have the same number of rows.
\<close>

definition frame_ok :: "frame \<Rightarrow> bool" where
  "frame_ok d \<longleftrightarrow>
     length (col_Alpha d) = length (col_q d) \<and>
     length (col_NF_SF d) = length (col_q d) \<and>
     length (col_AF_AF2 d) = length (col_q d) \<and>
     length (col_PM_YM d) = length (col_q d)"

subsection \<open>Values left in a cell by one iteration\<close>

text \<open>
  Not functions of the source: the value that one iteration of the loop of NA2LD leaves
  at position \<open>i\<close> of the one list that all three references point to. The first write
  stores the angle in radians, the second overwrites it with the lift, and the third
  reads that lift back as if it were the angle and overwrites it with the result.
\<close>

definition NA2LD_cell :: "real \<Rightarrow> real \<Rightarrow> real \<Rightarrow> real" where
  "NA2LD_cell n a alpha =
     (let rad = radians alpha;
          lift = n * cos rad - a * sin rad
      in n * sin lift + a * cos lift)"

section \<open>Properties\<close>

subsection \<open>Helper facts\<close>

lemma ebind_Inr [simp]: "ebind (Inr x) f = f x"
  by (simp add: ebind_def)

lemma ebind_Inl [simp]: "ebind (Inl e) f = Inl e"
  by (simp add: ebind_def)

lemma index_in [simp]: "i < length xs \<Longrightarrow> index xs i = Inr (xs ! i)"
  by (simp add: index_def)

lemma index_out [simp]: "length xs \<le> i \<Longrightarrow> index xs i = Inl LookupError"
  by (simp add: index_def)

lemma store_in [simp]: "i < length xs \<Longrightarrow> store xs i v = Inr (xs[i := v])"
  by (simp add: store_def)

lemma py_sqrt_nonneg [simp]: "0 \<le> x \<Longrightarrow> py_sqrt x = Inr (sqrt x)"
  by (simp add: py_sqrt_def)

lemma py_div_nonzero [simp]: "d \<noteq> 0 \<Longrightarrow> py_div x d = Inr (x / d)"
  by (simp add: py_div_def)

lemma q2v_radicand_nonneg: "0 \<le> (2 * \<bar>x / psf2pa\<bar> * q2v_R * q2v_T) / q2v_p"
  by (simp add: q2v_R_def q2v_T_def q2v_p_def)

lemma q2v_loop_inv:
  "\<forall>i \<in> set is. i < length q \<Longrightarrow> length vel = length q \<Longrightarrow>
   \<exists>r. q2v_loop is q vel = Inr r \<and> length r = length q \<and>
       (\<forall>j < length q. r ! j =
          (if j \<in> set is then sqrt ((2 * \<bar>q ! j / psf2pa\<bar> * q2v_R * q2v_T) / q2v_p)
           else vel ! j))"
proof (induction "is" arbitrary: vel)
  case Nil
  then show ?case by simp
next
  case (Cons i "is")
  let ?v = "sqrt ((2 * \<bar>q ! i / psf2pa\<bar> * q2v_R * q2v_T) / q2v_p)"
  from Cons.prems have i: "i < length q" and rest: "\<forall>k \<in> set is. k < length q"
    by simp_all
  have len: "length (vel[i := ?v]) = length q"
    using Cons.prems by simp
  from Cons.IH [OF rest len] obtain r where
    r: "q2v_loop is q (vel[i := ?v]) = Inr r" "length r = length q"
       "\<forall>j < length q. r ! j =
          (if j \<in> set is then sqrt ((2 * \<bar>q ! j / psf2pa\<bar> * q2v_R * q2v_T) / q2v_p)
           else (vel[i := ?v]) ! j)"
    by blast
  have step: "q2v_loop (i # is) q vel = Inr r"
    using i Cons.prems(2) r(1) q2v_radicand_nonneg [of "q ! i"] by simp
  have "\<forall>j < length q. r ! j =
          (if j \<in> set (i # is) then sqrt ((2 * \<bar>q ! j / psf2pa\<bar> * q2v_R * q2v_T) / q2v_p)
           else vel ! j)"
    using r(3) Cons.prems(2) by (auto simp: nth_list_update)
  with step r(2) show ?case by blast
qed

lemma q2v_eq:
  "q2v q = Inr (map (\<lambda>x. sqrt ((2 * \<bar>x / psf2pa\<bar> * q2v_R * q2v_T) / q2v_p)) q)"
proof -
  have "\<forall>i \<in> set [0..<length q]. i < length q" by simp
  moreover have "length (replicate (length q) (0::real)) = length q" by simp
  ultimately obtain r where
    r: "q2v_loop [0..<length q] q (replicate (length q) 0) = Inr r" "length r = length q"
       "\<forall>j < length q. r ! j =
          (if j \<in> set [0..<length q]
           then sqrt ((2 * \<bar>q ! j / psf2pa\<bar> * q2v_R * q2v_T) / q2v_p)
           else replicate (length q) 0 ! j)"
    using q2v_loop_inv [of "[0..<length q]" q "replicate (length q) 0"] by blast
  have "r = map (\<lambda>x. sqrt ((2 * \<bar>x / psf2pa\<bar> * q2v_R * q2v_T) / q2v_p)) q"
    using r(2,3) by (intro nth_equalityI) simp_all
  with r(1) show ?thesis by (simp add: q2v_def)
qed

lemma force2coeff_loop_inv:
  "\<forall>i \<in> set is. i < length q \<and> i < length force \<Longrightarrow> length c = length force \<Longrightarrow>
   \<exists>r. force2coeff_loop is force q c = Inr r \<and> length r = length force \<and>
       (\<forall>j < length force. r ! j =
          (if j \<in> set is
           then (if q ! j = 0 then None else Some (force ! j / (q ! j * force2coeff_S)))
           else c ! j))"
proof (induction "is" arbitrary: c)
  case Nil
  then show ?case by simp
next
  case (Cons i "is")
  let ?v = "if q ! i = 0 then None else Some (force ! i / (q ! i * force2coeff_S))"
  from Cons.prems have i: "i < length q" "i < length force"
    and rest: "\<forall>k \<in> set is. k < length q \<and> k < length force"
    by simp_all
  have len: "length (c[i := ?v]) = length force"
    using Cons.prems by simp
  from Cons.IH [OF rest len] obtain r where
    r: "force2coeff_loop is force q (c[i := ?v]) = Inr r" "length r = length force"
       "\<forall>j < length force. r ! j =
          (if j \<in> set is
           then (if q ! j = 0 then None else Some (force ! j / (q ! j * force2coeff_S)))
           else (c[i := ?v]) ! j)"
    by blast
  have nz: "q ! i \<noteq> 0 \<Longrightarrow> q ! i * force2coeff_S \<noteq> 0"
    by (simp add: force2coeff_S_def)
  have step: "force2coeff_loop (i # is) force q c = Inr r"
  proof (cases "q ! i = 0")
    case True
    with i Cons.prems(2) r(1) show ?thesis by simp
  next
    case False
    with i Cons.prems(2) r(1) nz show ?thesis by simp
  qed
  have "\<forall>j < length force. r ! j =
          (if j \<in> set (i # is)
           then (if q ! j = 0 then None else Some (force ! j / (q ! j * force2coeff_S)))
           else c ! j)"
    using r(3) Cons.prems(2) by (auto simp: nth_list_update)
  with step r(2) show ?case by blast
qed

lemma force2coeff_eq:
  assumes "length force \<le> length q"
  shows "force2coeff force q =
         Inr (map (\<lambda>(f, qi). if qi = 0 then None else Some (f / (qi * force2coeff_S)))
                  (zip force q))"
proof -
  have "\<forall>i \<in> set [0..<length force]. i < length q \<and> i < length force"
    using assms by simp
  moreover have "length (replicate (length force) (Some (0::real))) = length force"
    by simp
  ultimately obtain r where
    r: "force2coeff_loop [0..<length force] force q (replicate (length force) (Some 0)) = Inr r"
       "length r = length force"
       "\<forall>j < length force. r ! j =
          (if j \<in> set [0..<length force]
           then (if q ! j = 0 then None else Some (force ! j / (q ! j * force2coeff_S)))
           else replicate (length force) (Some 0) ! j)"
    using force2coeff_loop_inv
      [of "[0..<length force]" q force "replicate (length force) (Some 0)"]
    by blast
  have "r = map (\<lambda>(f, qi). if qi = 0 then None else Some (f / (qi * force2coeff_S)))
                (zip force q)"
    using r(2,3) assms by (intro nth_equalityI) simp_all
  with r(1) show ?thesis by (simp add: force2coeff_def)
qed

lemma momentTransfer_loop_inv:
  "\<forall>i \<in> set is. i < length moment \<and> i < length normal \<Longrightarrow> length new = length moment \<Longrightarrow>
   \<exists>r. momentTransfer_loop is moment normal C new = Inr r \<and> length r = length moment \<and>
       (\<forall>j < length moment. r ! j =
          (if j \<in> set is then moment ! j - (momentTransfer_A + C) * normal ! j
           else new ! j))"
proof (induction "is" arbitrary: new)
  case Nil
  then show ?case by simp
next
  case (Cons i "is")
  let ?v = "moment ! i - (momentTransfer_A + C) * normal ! i"
  from Cons.prems have i: "i < length moment" "i < length normal"
    and rest: "\<forall>k \<in> set is. k < length moment \<and> k < length normal"
    by simp_all
  have len: "length (new[i := ?v]) = length moment"
    using Cons.prems by simp
  from Cons.IH [OF rest len] obtain r where
    r: "momentTransfer_loop is moment normal C (new[i := ?v]) = Inr r"
       "length r = length moment"
       "\<forall>j < length moment. r ! j =
          (if j \<in> set is then moment ! j - (momentTransfer_A + C) * normal ! j
           else (new[i := ?v]) ! j)"
    by blast
  have step: "momentTransfer_loop (i # is) moment normal C new = Inr r"
    using i Cons.prems(2) r(1) by simp
  have "\<forall>j < length moment. r ! j =
          (if j \<in> set (i # is) then moment ! j - (momentTransfer_A + C) * normal ! j
           else new ! j)"
    using r(3) Cons.prems(2) by (auto simp: nth_list_update)
  with step r(2) show ?case by blast
qed

lemma momentTransfer_eq:
  assumes "length moment \<le> length normal"
  shows "momentTransfer moment normal b =
         Inr (map (\<lambda>(m, nf). m - (momentTransfer_A + (momentTransfer_D - b / 1000)) * nf)
                  (zip moment normal))"
proof -
  let ?C = "momentTransfer_D - b / 1000"
  have "\<forall>i \<in> set [0..<length moment]. i < length moment \<and> i < length normal"
    using assms by simp
  moreover have "length (replicate (length moment) (0::real)) = length moment"
    by simp
  ultimately obtain r where
    r: "momentTransfer_loop [0..<length moment] moment normal ?C
          (replicate (length moment) 0) = Inr r"
       "length r = length moment"
       "\<forall>j < length moment. r ! j =
          (if j \<in> set [0..<length moment]
           then moment ! j - (momentTransfer_A + ?C) * normal ! j
           else replicate (length moment) 0 ! j)"
    using momentTransfer_loop_inv
      [of "[0..<length moment]" moment normal "replicate (length moment) 0" ?C]
    by blast
  have "r = map (\<lambda>(m, nf). m - (momentTransfer_A + ?C) * nf) (zip moment normal)"
    using r(2,3) assms by (intro nth_equalityI) simp_all
  with r(1) show ?thesis by (simp add: momentTransfer_def)
qed

lemma NA2LD_body_aliased:
  assumes "i < length N" "i < length A" "i < length alphaDeg" "i < length (h r)"
  shows "NA2LD_body i N A alphaDeg r r r h =
         Inr (h(r := (h r)[i := NA2LD_cell (N ! i) (A ! i) (alphaDeg ! i)]))"
  using assms
  by (simp add: NA2LD_body_def heap_write_def heap_read_def NA2LD_cell_def Let_def)

lemma NA2LD_loop_inv:
  "\<forall>i \<in> set is. i < length N \<and> i < length A \<and> i < length alphaDeg \<Longrightarrow>
   length (h r) = length N \<Longrightarrow>
   \<exists>h'. NA2LD_loop is N A alphaDeg r r r h = Inr h' \<and> length (h' r) = length N \<and>
       (\<forall>j < length N. h' r ! j =
          (if j \<in> set is then NA2LD_cell (N ! j) (A ! j) (alphaDeg ! j) else h r ! j))"
proof (induction "is" arbitrary: h)
  case Nil
  then show ?case by simp
next
  case (Cons i "is")
  let ?h = "h(r := (h r)[i := NA2LD_cell (N ! i) (A ! i) (alphaDeg ! i)])"
  from Cons.prems have i: "i < length N" "i < length A" "i < length alphaDeg"
    and rest: "\<forall>k \<in> set is. k < length N \<and> k < length A \<and> k < length alphaDeg"
    by simp_all
  have body: "NA2LD_body i N A alphaDeg r r r h = Inr ?h"
    using i Cons.prems(2) by (intro NA2LD_body_aliased) simp_all
  have len: "length (?h r) = length N"
    using Cons.prems(2) by simp
  from Cons.IH [of ?h, OF rest len] obtain h' where
    h': "NA2LD_loop is N A alphaDeg r r r ?h = Inr h'" "length (h' r) = length N"
        "\<forall>j < length N. h' r ! j =
           (if j \<in> set is then NA2LD_cell (N ! j) (A ! j) (alphaDeg ! j) else ?h r ! j)"
    by blast
  have step: "NA2LD_loop (i # is) N A alphaDeg r r r h = Inr h'"
    using body h'(1) by simp
  have "\<forall>j < length N. h' r ! j =
          (if j \<in> set (i # is) then NA2LD_cell (N ! j) (A ! j) (alphaDeg ! j) else h r ! j)"
    using h'(3) Cons.prems(2) by (auto simp: nth_list_update)
  with step h'(2) show ?case by blast
qed

lemma NA2LD_eq:
  assumes "length N \<le> length A" "length N \<le> length alphaDeg"
  shows "NA2LD N A alphaDeg =
         Inr (map (\<lambda>(n, a, alpha). NA2LD_cell n a alpha) (zip N (zip A alphaDeg)),
              map (\<lambda>(n, a, alpha). NA2LD_cell n a alpha) (zip N (zip A alphaDeg)))"
proof -
  define h0 :: heap where "h0 = (\<lambda>_. [])(0 := replicate (length N) 0)"
  have idx: "\<forall>i \<in> set [0..<length N]. i < length N \<and> i < length A \<and> i < length alphaDeg"
    using assms by simp
  have len0: "length (h0 0) = length N"
    by (simp add: h0_def)
  have "\<exists>h'. NA2LD_loop [0..<length N] N A alphaDeg 0 0 0 h0 = Inr h' \<and>
          length (h' 0) = length N \<and>
          (\<forall>j < length N. h' 0 ! j =
             (if j \<in> set [0..<length N] then NA2LD_cell (N ! j) (A ! j) (alphaDeg ! j)
              else h0 0 ! j))"
    using idx len0 by (rule NA2LD_loop_inv)
  then obtain h' where
    h': "NA2LD_loop [0..<length N] N A alphaDeg 0 0 0 h0 = Inr h'"
        "length (h' 0) = length N"
        "\<forall>j < length N. h' 0 ! j =
           (if j \<in> set [0..<length N] then NA2LD_cell (N ! j) (A ! j) (alphaDeg ! j)
            else h0 0 ! j)"
    by blast
  have cells: "h' 0 = map (\<lambda>(n, a, alpha). NA2LD_cell n a alpha) (zip N (zip A alphaDeg))"
    using h'(2,3) assms by (intro nth_equalityI) simp_all
  have "NA2LD N A alphaDeg = Inr (h' 0, h' 0)"
    unfolding NA2LD_def Let_def h0_def [symmetric] h'(1) by simp
  with cells show ?thesis by simp
qed

lemma upt_split_at:
  "m < n \<Longrightarrow> [0..<n] = [0..<m] @ m # [Suc m..<n]"
  using upt_add_eq_append [of 0 m "n - m"] by (simp add: upt_conv_Cons)

lemma force2coeff_loop_append:
  "force2coeff_loop (is @ js) force q c =
   ebind (force2coeff_loop is force q c) (force2coeff_loop js force q)"
  by (induction "is" arbitrary: c) (auto simp: ebind_def split: sum.splits)

lemma NA2LD_loop_append:
  "NA2LD_loop (is @ js) N A alphaDeg l d a h =
   ebind (NA2LD_loop is N A alphaDeg l d a h) (NA2LD_loop js N A alphaDeg l d a)"
  by (induction "is" arbitrary: h) (auto simp: ebind_def split: sum.splits)

lemma momentTransfer_loop_append:
  "momentTransfer_loop (is @ js) moment normal C new =
   ebind (momentTransfer_loop is moment normal C new) (momentTransfer_loop js moment normal C)"
  by (induction "is" arbitrary: new) (auto simp: ebind_def split: sum.splits)

lemma force2coeff_short:
  assumes "length q < length force"
  shows "force2coeff force q = Inl LookupError"
proof -
  let ?c0 = "replicate (length force) (Some (0::real))"
  have idx: "\<forall>i \<in> set [0..<length q]. i < length q \<and> i < length force"
    using assms by simp
  have len0: "length ?c0 = length force" by simp
  have "\<exists>r. force2coeff_loop [0..<length q] force q ?c0 = Inr r \<and> length r = length force \<and>
       (\<forall>j < length force. r ! j =
          (if j \<in> set [0..<length q]
           then (if q ! j = 0 then None else Some (force ! j / (q ! j * force2coeff_S)))
           else ?c0 ! j))"
    using idx len0 by (rule force2coeff_loop_inv)
  then obtain r where r: "force2coeff_loop [0..<length q] force q ?c0 = Inr r"
    by blast
  show ?thesis
    unfolding force2coeff_def upt_split_at [OF assms] force2coeff_loop_append r
    by simp
qed

lemma momentTransfer_short:
  assumes "length normal < length moment"
  shows "momentTransfer moment normal b = Inl LookupError"
proof -
  let ?c0 = "replicate (length moment) (0::real)"
  let ?C = "momentTransfer_D - b / 1000"
  have idx: "\<forall>i \<in> set [0..<length normal]. i < length moment \<and> i < length normal"
    using assms by simp
  have len0: "length ?c0 = length moment" by simp
  have "\<exists>r. momentTransfer_loop [0..<length normal] moment normal ?C ?c0 = Inr r \<and>
       length r = length moment \<and>
       (\<forall>j < length moment. r ! j =
          (if j \<in> set [0..<length normal]
           then moment ! j - (momentTransfer_A + ?C) * normal ! j
           else ?c0 ! j))"
    using idx len0 by (rule momentTransfer_loop_inv)
  then obtain r where
    r: "momentTransfer_loop [0..<length normal] moment normal ?C ?c0 = Inr r"
    by blast
  show ?thesis
    unfolding momentTransfer_def Let_def upt_split_at [OF assms] momentTransfer_loop_append r
    using assms by simp
qed

lemma NA2LD_body_short:
  assumes "i < length (h r)" "length A \<le> i \<or> length alphaDeg \<le> i"
  shows "NA2LD_body i N A alphaDeg r r r h = Inl LookupError"
proof (cases "i < length alphaDeg")
  case True
  with assms have "length A \<le> i" by simp
  with True assms(1) show ?thesis
    by (cases "i < length N")
       (simp_all add: NA2LD_body_def heap_write_def heap_read_def index_def)
next
  case False
  then show ?thesis by (simp add: NA2LD_body_def)
qed

lemma NA2LD_short:
  assumes "length A < length N \<or> length alphaDeg < length N"
  shows "NA2LD N A alphaDeg = Inl LookupError"
proof -
  define m where "m = min (length A) (length alphaDeg)"
  define h0 :: heap where "h0 = (\<lambda>_. [])(0 := replicate (length N) 0)"
  have m: "m < length N" "length A \<le> m \<or> length alphaDeg \<le> m"
    using assms by (auto simp: m_def)
  have idx: "\<forall>i \<in> set [0..<m]. i < length N \<and> i < length A \<and> i < length alphaDeg"
    using m(1) by (auto simp: m_def)
  have len0: "length (h0 0) = length N"
    by (simp add: h0_def)
  have "\<exists>h'. NA2LD_loop [0..<m] N A alphaDeg 0 0 0 h0 = Inr h' \<and>
          length (h' 0) = length N \<and>
          (\<forall>j < length N. h' 0 ! j =
             (if j \<in> set [0..<m] then NA2LD_cell (N ! j) (A ! j) (alphaDeg ! j)
              else h0 0 ! j))"
    using idx len0 by (rule NA2LD_loop_inv)
  then obtain h' where
    h': "NA2LD_loop [0..<m] N A alphaDeg 0 0 0 h0 = Inr h'" "length (h' 0) = length N"
    by blast
  have body: "NA2LD_body m N A alphaDeg 0 0 0 h' = Inl LookupError"
    using m h'(2) by (intro NA2LD_body_short) simp_all
  show ?thesis
    unfolding NA2LD_def Let_def h0_def [symmetric] upt_split_at [OF m(1)]
      NA2LD_loop_append h'(1)
    using body by simp
qed

lemma length_series_mul [simp]: "length (series_mul xs k) = length xs"
  by (simp add: series_mul_def)

lemma length_series_div [simp]: "length (series_div xs k) = length xs"
  by (simp add: series_div_def)

lemma index_B: "i < 5 \<Longrightarrow> index B i = Inr (B ! i)"
  by (simp add: B_def)

lemma datasplit_angle_eq:
  assumes "frame_ok d"
  shows "datasplit_angle d =
    Inr \<lparr>X = col_Alpha d,
         NF = series_mul (col_NF_SF d) lbf2N,
         AF = series_mul (col_AF_AF2 d) lbf2N,
         PM = map (\<lambda>(m, nf). m - (momentTransfer_A + (momentTransfer_D - B ! 0 / 1000)) * nf)
                  (zip (series_mul (col_PM_YM d) inlbs2Nm) (series_mul (col_NF_SF d) lbf2N)),
         CL = map (\<lambda>(f, qi). if qi = 0 then None else Some (f / (qi * force2coeff_S)))
                  (zip (map (\<lambda>(n, a, alpha). NA2LD_cell n a alpha)
                            (zip (series_mul (col_NF_SF d) lbf2N)
                                 (zip (series_mul (col_AF_AF2 d) lbf2N) (col_Alpha d))))
                       (series_div (col_q d) psf2pa)),
         CD = map (\<lambda>(f, qi). if qi = 0 then None else Some (f / (qi * force2coeff_S)))
                  (zip (map (\<lambda>(n, a, alpha). NA2LD_cell n a alpha)
                            (zip (series_mul (col_NF_SF d) lbf2N)
                                 (zip (series_mul (col_AF_AF2 d) lbf2N) (col_Alpha d))))
                       (series_div (col_q d) psf2pa))\<rparr>"
proof -
  have na: "NA2LD (series_mul (col_NF_SF d) lbf2N) (series_mul (col_AF_AF2 d) lbf2N)
              (col_Alpha d) =
            Inr (map (\<lambda>(n, a, alpha). NA2LD_cell n a alpha)
                     (zip (series_mul (col_NF_SF d) lbf2N)
                          (zip (series_mul (col_AF_AF2 d) lbf2N) (col_Alpha d))),
                 map (\<lambda>(n, a, alpha). NA2LD_cell n a alpha)
                     (zip (series_mul (col_NF_SF d) lbf2N)
                          (zip (series_mul (col_AF_AF2 d) lbf2N) (col_Alpha d))))"
    using assms by (intro NA2LD_eq) (simp_all add: frame_ok_def)
  have fc: "force2coeff (map (\<lambda>(n, a, alpha). NA2LD_cell n a alpha)
                     (zip (series_mul (col_NF_SF d) lbf2N)
                          (zip (series_mul (col_AF_AF2 d) lbf2N) (col_Alpha d))))
              (series_div (col_q d) psf2pa) =
            Inr (map (\<lambda>(f, qi). if qi = 0 then None else Some (f / (qi * force2coeff_S)))
                  (zip (map (\<lambda>(n, a, alpha). NA2LD_cell n a alpha)
                            (zip (series_mul (col_NF_SF d) lbf2N)
                                 (zip (series_mul (col_AF_AF2 d) lbf2N) (col_Alpha d))))
                       (series_div (col_q d) psf2pa)))"
    using assms by (intro force2coeff_eq) (simp add: frame_ok_def)
  have mt: "momentTransfer (series_mul (col_PM_YM d) inlbs2Nm)
              (series_mul (col_NF_SF d) lbf2N) (B ! 0) =
            Inr (map (\<lambda>(m, nf). m - (momentTransfer_A + (momentTransfer_D - B ! 0 / 1000)) * nf)
                  (zip (series_mul (col_PM_YM d) inlbs2Nm) (series_mul (col_NF_SF d) lbf2N)))"
    using assms by (intro momentTransfer_eq) (simp add: frame_ok_def)
  show ?thesis
    unfolding datasplit_angle_def na
    by (simp add: fc mt index_B Let_def)
qed

lemma datasplit_velocity_eq:
  assumes "frame_ok d" "i < 5"
  shows "datasplit_velocity d i =
    Inr \<lparr>X = map (\<lambda>x. sqrt ((2 * \<bar>x / psf2pa\<bar> * q2v_R * q2v_T) / q2v_p)) (col_q d),
         NF = series_mul (col_NF_SF d) lbf2N,
         AF = series_mul (col_AF_AF2 d) lbf2N,
         PM = map (\<lambda>(m, nf). m - (momentTransfer_A + (momentTransfer_D - B ! i / 1000)) * nf)
                  (zip (series_mul (col_PM_YM d) inlbs2Nm) (series_mul (col_NF_SF d) lbf2N)),
         CL = map (\<lambda>(f, qi). if qi = 0 then None else Some (f / (qi * force2coeff_S)))
                  (zip (series_mul (col_NF_SF d) lbf2N) (series_div (col_q d) psf2pa)),
         CD = map (\<lambda>(f, qi). if qi = 0 then None else Some (f / (qi * force2coeff_S)))
                  (zip (series_mul (col_AF_AF2 d) lbf2N) (series_div (col_q d) psf2pa))\<rparr>"
proof -
  have fl: "force2coeff (series_mul (col_NF_SF d) lbf2N) (series_div (col_q d) psf2pa) =
            Inr (map (\<lambda>(f, qi). if qi = 0 then None else Some (f / (qi * force2coeff_S)))
                  (zip (series_mul (col_NF_SF d) lbf2N) (series_div (col_q d) psf2pa)))"
    using assms by (intro force2coeff_eq) (simp add: frame_ok_def)
  have fd: "force2coeff (series_mul (col_AF_AF2 d) lbf2N) (series_div (col_q d) psf2pa) =
            Inr (map (\<lambda>(f, qi). if qi = 0 then None else Some (f / (qi * force2coeff_S)))
                  (zip (series_mul (col_AF_AF2 d) lbf2N) (series_div (col_q d) psf2pa)))"
    using assms by (intro force2coeff_eq) (simp add: frame_ok_def)
  have mt: "momentTransfer (series_mul (col_PM_YM d) inlbs2Nm)
              (series_mul (col_NF_SF d) lbf2N) (B ! i) =
            Inr (map (\<lambda>(m, nf). m - (momentTransfer_A + (momentTransfer_D - B ! i / 1000)) * nf)
                  (zip (series_mul (col_PM_YM d) inlbs2Nm) (series_mul (col_NF_SF d) lbf2N)))"
    using assms by (intro momentTransfer_eq) (simp add: frame_ok_def)
  show ?thesis
    unfolding datasplit_velocity_def q2v_eq
    using assms(2) by (simp add: fl fd mt index_B Let_def)
qed

lemma datasplit_loop_inv:
  "\<forall>i \<in> set is. i < length data \<and> i < 5 \<and> frame_ok (data ! i) \<Longrightarrow>
   length lst = length data \<Longrightarrow>
   \<exists>r. datasplit_loop is data lst = Inr r \<and> length r = length data \<and>
       (\<forall>j < length data.
          (j \<in> set is \<longrightarrow> Inr (r ! j) = map_sum id Obj (datasplit_velocity (data ! j) j)) \<and>
          (j \<notin> set is \<longrightarrow> r ! j = lst ! j))"
proof (induction "is" arbitrary: lst)
  case Nil
  then show ?case by simp
next
  case (Cons i "is")
  from Cons.prems have i: "i < length data" "i < 5" "frame_ok (data ! i)"
    and rest: "\<forall>k \<in> set is. k < length data \<and> k < 5 \<and> frame_ok (data ! k)"
    by simp_all
  from datasplit_velocity_eq [OF i(3) i(2)] obtain obj where
    obj: "datasplit_velocity (data ! i) i = Inr obj"
    by blast
  have len: "length (lst[i := Obj obj]) = length data"
    using Cons.prems by simp
  from Cons.IH [of "lst[i := Obj obj]", OF rest len] obtain r where
    r: "datasplit_loop is data (lst[i := Obj obj]) = Inr r" "length r = length data"
       "\<forall>j < length data.
          (j \<in> set is \<longrightarrow> Inr (r ! j) = map_sum id Obj (datasplit_velocity (data ! j) j)) \<and>
          (j \<notin> set is \<longrightarrow> r ! j = (lst[i := Obj obj]) ! j)"
    by blast
  have step: "datasplit_loop (i # is) data lst = Inr r"
    using i(1) Cons.prems(2) obj r(1) by simp
  have "\<forall>j < length data.
          (j \<in> set (i # is) \<longrightarrow>
             Inr (r ! j) = map_sum id Obj (datasplit_velocity (data ! j) j)) \<and>
          (j \<notin> set (i # is) \<longrightarrow> r ! j = lst ! j)"
    using r(3) Cons.prems(2) obj i(1) by (auto simp: nth_list_update)
  with step r(2) show ?case by blast
qed

lemma datasplit_runs:
  assumes "data \<noteq> []" "length data \<le> 5" "\<forall>d \<in> set data. frame_ok d"
  shows "\<exists>rs. datasplit data = Inr rs \<and> length rs = length data \<and>
           Inr (rs ! 0) = map_sum id Obj (datasplit_angle (data ! 0)) \<and>
           (\<forall>k < length data. 0 < k \<longrightarrow>
              Inr (rs ! k) = map_sum id Obj (datasplit_velocity (data ! k) k))"
proof -
  from assms(1) have pos: "0 < length data" by simp
  with assms(3) have ok0: "frame_ok (data ! 0)" by simp
  from datasplit_angle_eq [OF ok0] obtain obj where
    obj: "datasplit_angle (data ! 0) = Inr obj"
    by blast
  let ?lst = "(replicate (length data) Zero)[0 := Obj obj]"
  have idx: "\<forall>i \<in> set [1..<length data]. i < length data \<and> i < 5 \<and> frame_ok (data ! i)"
    using assms(2,3) by simp
  have len: "length ?lst = length data" by simp
  have "\<exists>r. datasplit_loop [1..<length data] data ?lst = Inr r \<and> length r = length data \<and>
       (\<forall>j < length data.
          (j \<in> set [1..<length data] \<longrightarrow>
             Inr (r ! j) = map_sum id Obj (datasplit_velocity (data ! j) j)) \<and>
          (j \<notin> set [1..<length data] \<longrightarrow> r ! j = ?lst ! j))"
    using idx len by (rule datasplit_loop_inv)
  then obtain rs where
    rs: "datasplit_loop [1..<length data] data ?lst = Inr rs" "length rs = length data"
        "\<forall>j < length data.
          (j \<in> set [1..<length data] \<longrightarrow>
             Inr (rs ! j) = map_sum id Obj (datasplit_velocity (data ! j) j)) \<and>
          (j \<notin> set [1..<length data] \<longrightarrow> rs ! j = ?lst ! j)"
    by blast
  have run: "datasplit data = Inr rs"
    using pos obj rs(1) by (simp add: datasplit_def Let_def)
  have first: "Inr (rs ! 0) = map_sum id Obj (datasplit_angle (data ! 0))"
    using rs(3) pos obj by simp
  have others: "\<forall>k < length data. 0 < k \<longrightarrow>
              Inr (rs ! k) = map_sum id Obj (datasplit_velocity (data ! k) k)"
    using rs(3) by simp
  from run rs(2) first others show ?thesis by blast
qed

lemma psf2pa_nonzero [simp]: "psf2pa \<noteq> 0"
  by (simp add: psf2pa_def)

lemma angle_record_fields:
  assumes "frame_ok d"
  shows "\<exists>r. datasplit_angle d = Inr r \<and>
     length (X r) = length (col_q d) \<and> length (NF r) = length (col_q d) \<and>
     length (AF r) = length (col_q d) \<and> length (PM r) = length (col_q d) \<and>
     length (CL r) = length (col_q d) \<and> length (CD r) = length (col_q d) \<and>
     CL r = CD r \<and>
     (\<forall>i < length (col_q d).
        X r ! i = col_Alpha d ! i \<and>
        NF r ! i = col_NF_SF d ! i * lbf2N \<and>
        AF r ! i = col_AF_AF2 d ! i * lbf2N \<and>
        PM r ! i = col_PM_YM d ! i * inlbs2Nm -
          (momentTransfer_A + (momentTransfer_D - B ! 0 / 1000)) * (col_NF_SF d ! i * lbf2N) \<and>
        CL r ! i =
          (if col_q d ! i = 0 then None
           else Some (NA2LD_cell (col_NF_SF d ! i * lbf2N) (col_AF_AF2 d ! i * lbf2N)
                        (col_Alpha d ! i) / (col_q d ! i / psf2pa * force2coeff_S))))"
  using assms unfolding datasplit_angle_eq [OF assms]
  by (simp add: frame_ok_def series_mul_def series_div_def)

lemma velocity_record_fields:
  assumes "frame_ok d" "k < 5"
  shows "\<exists>r. datasplit_velocity d k = Inr r \<and>
     length (X r) = length (col_q d) \<and> length (NF r) = length (col_q d) \<and>
     length (AF r) = length (col_q d) \<and> length (PM r) = length (col_q d) \<and>
     length (CL r) = length (col_q d) \<and> length (CD r) = length (col_q d) \<and>
     (\<forall>i < length (col_q d).
        X r ! i = sqrt ((2 * \<bar>col_q d ! i / psf2pa\<bar> * q2v_R * q2v_T) / q2v_p) \<and>
        NF r ! i = col_NF_SF d ! i * lbf2N \<and>
        AF r ! i = col_AF_AF2 d ! i * lbf2N \<and>
        PM r ! i = col_PM_YM d ! i * inlbs2Nm -
          (momentTransfer_A + (momentTransfer_D - B ! k / 1000)) * (col_NF_SF d ! i * lbf2N) \<and>
        CL r ! i =
          (if col_q d ! i = 0 then None
           else Some (col_NF_SF d ! i * lbf2N / (col_q d ! i / psf2pa * force2coeff_S))) \<and>
        CD r ! i =
          (if col_q d ! i = 0 then None
           else Some (col_AF_AF2 d ! i * lbf2N / (col_q d ! i / psf2pa * force2coeff_S))))"
  using assms unfolding datasplit_velocity_eq [OF assms]
  by (simp add: frame_ok_def series_mul_def series_div_def)

lemma datasplit_records:
  assumes "data \<noteq> [] \<and> length data \<le> 5 \<and> (\<forall>d \<in> set data. frame_ok d)"
  shows "\<exists>rs. datasplit data = Inr rs \<and> length rs = length data \<and>
           (\<forall>k < length data. \<exists>r. rs ! k = Obj r \<and>
              (if k = 0 then datasplit_angle (data ! k) = Inr r
               else datasplit_velocity (data ! k) k = Inr r))"
proof -
  from assms datasplit_runs [of data] obtain rs where
    rs: "datasplit data = Inr rs" "length rs = length data"
        "Inr (rs ! 0) = map_sum id Obj (datasplit_angle (data ! 0))"
        "\<forall>k < length data. 0 < k \<longrightarrow>
           Inr (rs ! k) = map_sum id Obj (datasplit_velocity (data ! k) k)"
    by blast
  have "\<exists>r. rs ! k = Obj r \<and>
          (if k = 0 then datasplit_angle (data ! k) = Inr r
           else datasplit_velocity (data ! k) k = Inr r)"
    if k: "k < length data" for k
  proof (cases "k = 0")
    case True
    from assms k have ok: "frame_ok (data ! 0)" by simp
    from angle_record_fields [OF ok] obtain r where
      r: "datasplit_angle (data ! 0) = Inr r"
      by blast
    from rs(3) r have "rs ! 0 = Obj r" by simp
    with r True show ?thesis by simp
  next
    case False
    from assms k have ok: "frame_ok (data ! k)" and k5: "k < 5" by simp_all
    from velocity_record_fields [OF ok k5] obtain r where
      r: "datasplit_velocity (data ! k) k = Inr r"
      by blast
    from rs(4) k False r have "rs ! k = Obj r" by auto
    with r False show ?thesis by simp
  qed
  with rs(1,2) show ?thesis by blast
qed

subsection \<open>Claims about force2coeff and q2v\<close>

text \<open>
  C5. For force and dynamic-pressure sequences of equal length, force2coeff returns a
  list of the same length without raising (in particular without dividing by zero); at
  every index the entry is the missing marker \<open>None\<close> exactly when the dynamic pressure
  there is zero, and otherwise it is the computed number force[i] / (q[i] * 0.01).
\<close>

theorem force2coeff_missing_iff_zero:
  "length q = length force \<Longrightarrow>
   \<exists>c. force2coeff force q = Inr c \<and> length c = length force \<and>
       (\<forall>i < length force.
          (c ! i = None \<longleftrightarrow> q ! i = 0) \<and>
          (q ! i \<noteq> 0 \<longrightarrow> c ! i = Some (force ! i / (q ! i * 0.01))))"
  by (simp add: force2coeff_eq force2coeff_S_def)

theorem force2coeff_missing_iff_zero_witness:
  "length [0, 25 :: real] = length [5, 5 :: real] \<and>
   force2coeff [5, 5] [0, 25] = Inr [None, Some 20]"
proof -
  have len: "length [0, 25 :: real] = length [5, 5 :: real]" by simp
  from force2coeff_missing_iff_zero [OF len] obtain c where
    c: "force2coeff [5, 5] [0, 25] = Inr c" "length c = 2"
       "\<forall>i < 2. (c ! i = None \<longleftrightarrow> [0, 25 :: real] ! i = 0) \<and>
          ([0, 25 :: real] ! i \<noteq> 0 \<longrightarrow> c ! i = Some ([5, 5] ! i / ([0, 25] ! i * 0.01)))"
    by auto
  from c(3) have "c ! 0 = None" "c ! 1 = Some 20"
    by (simp_all add: nth_Cons')
  with c(2) have "c = [None, Some 20]"
    by (intro nth_equalityI) (auto simp: less_Suc_eq numeral_2_eq_2)
  with c(1) len show ?thesis by simp
qed

text \<open>
  C6. q2v never raises and returns one velocity per sample; whenever two inputs of the
  same length carry opposite dynamic pressures at an index, the velocities at that index
  are the same: only the magnitude of the dynamic pressure is used, so a negative reading
  never reaches the square root as a negative radicand.
\<close>

theorem q2v_abs_clamp:
  "length q' = length q \<Longrightarrow> i < length q \<Longrightarrow> q' ! i = - q ! i \<Longrightarrow>
   \<exists>v v'. q2v q = Inr v \<and> q2v q' = Inr v' \<and>
          length v = length q \<and> length v' = length q \<and> v' ! i = v ! i"
  by (simp add: q2v_eq)

theorem q2v_abs_clamp_witness:
  "length [-3 :: real] = length [3 :: real] \<and> (0::nat) < length [3 :: real] \<and>
   [-3 :: real] ! 0 = - [3 :: real] ! 0 \<and>
   (\<exists>v v'. q2v [3] = Inr v \<and> q2v [-3] = Inr v' \<and> v' ! 0 = v ! 0)"
  using q2v_abs_clamp [of "[-3]" "[3]" 0] by auto

subsection \<open>Claims about NA2LD\<close>

text \<open>
  C1. The claim is that NA2LD returns, at every index, the rotated pair
  lift = N cos(alpha) - A sin(alpha) and drag = N sin(alpha) + A cos(alpha). The code
  writes the angle, the lift and the drag into one and the same list, so the lift is
  lost: for N = [0], A = [1] and angle [0] the returned lift is [1], where the rotation
  gives 0.
\<close>

theorem NA2LD_lift_overwritten:
  "NA2LD [0] [1] [0] = Inr ([1], [1]) \<and>
   (1::real) \<noteq> 0 * cos (radians 0) - 1 * sin (radians 0)"
  by (simp add: NA2LD_eq NA2LD_cell_def radians_def)

text \<open>
  C2. The claim is that at angle zero NA2LD returns lift = normal and drag = axial.
  For N = [0, 0], A = [1, 2] and angles [0, 0] the returned lift is [1, 2], which is
  the axial force and not the normal force.
\<close>

theorem NA2LD_zero_angle_not_identity:
  "NA2LD [0, 0] [1, 2] [0, 0] = Inr ([1, 2], [1, 2]) \<and> [1, 2] \<noteq> [0, 0 :: real]"
  by (simp add: NA2LD_eq NA2LD_cell_def radians_def)

text \<open>
  C10. The two sequences returned by NA2LD are one and the same list: with input
  sequences of equal length the call returns a pair (xs, xs). Consequently, in the first
  record produced by datasplit (the angle sweep) the lift and drag coefficients are
  equal.
\<close>

theorem NA2LD_returns_one_list:
  "(length A = length N \<and> length alphaDeg = length N \<longrightarrow>
      (\<exists>xs. NA2LD N A alphaDeg = Inr (xs, xs) \<and> length xs = length N)) \<and>
   (data \<noteq> [] \<and> length data \<le> 5 \<and> (\<forall>d \<in> set data. frame_ok d) \<longrightarrow>
      (\<exists>rs r. datasplit data = Inr rs \<and> rs ! 0 = Obj r \<and> CL r = CD r \<and>
              length (CL r) = length (col_q (data ! 0))))"
proof (intro conjI impI)
  assume "length A = length N \<and> length alphaDeg = length N"
  then show "\<exists>xs. NA2LD N A alphaDeg = Inr (xs, xs) \<and> length xs = length N"
    by (simp add: NA2LD_eq)
next
  assume wf: "data \<noteq> [] \<and> length data \<le> 5 \<and> (\<forall>d \<in> set data. frame_ok d)"
  then have ok0: "frame_ok (data ! 0)" by simp
  from wf datasplit_runs [of data] obtain rs where
    rs: "datasplit data = Inr rs"
        "Inr (rs ! 0) = map_sum id Obj (datasplit_angle (data ! 0))"
    by blast
  from angle_record_fields [OF ok0] obtain r where
    r: "datasplit_angle (data ! 0) = Inr r" "CL r = CD r"
       "length (CL r) = length (col_q (data ! 0))"
    by blast
  from rs(2) r(1) have "rs ! 0 = Obj r" by simp
  with rs(1) r(2,3)
  show "\<exists>rs r. datasplit data = Inr rs \<and> rs ! 0 = Obj r \<and> CL r = CD r \<and>
              length (CL r) = length (col_q (data ! 0))"
    by blast
qed

theorem NA2LD_returns_one_list_witness:
  "(\<exists>xs. NA2LD [0] [1] [0] = Inr (xs, xs) \<and> length xs = 1) \<and>
   (\<exists>rs r. datasplit [\<lparr>col_Alpha = [0], col_NF_SF = [0], col_AF_AF2 = [1],
                        col_PM_YM = [0], col_q = [1]\<rparr>] = Inr rs \<and>
           rs ! 0 = Obj r \<and> CL r = CD r \<and> length (CL r) = 1)"
  using NA2LD_returns_one_list [of "[1]" "[0]" "[0]"
      "[\<lparr>col_Alpha = [0], col_NF_SF = [0], col_AF_AF2 = [1], col_PM_YM = [0], col_q = [1]\<rparr>]"]
  by (simp add: frame_ok_def)

subsection \<open>Claims about momentTransfer\<close>

text \<open>
  C3, as stated, takes the offset D from the table of diameters of the article. The
  code never reads that table: for the first article with moment [0] and normal force [1]
  it returns -0.001449, while the claimed formula with the diameter 74.82 mm gives
  -0.005229.
\<close>

theorem momentTransfer_ignores_diameters:
  "momentTransfer [0] [1] (B ! 0) = Inr [- 0.001449] \<and>
   (- 0.001449 :: real) \<noteq> 0 - (0.028829 + diameters ! 0 / 1000 - B ! 0 / 1000) * 1"
  by (simp add: momentTransfer_eq momentTransfer_A_def momentTransfer_D_def B_def
      diameters_def)

text \<open>
  C3, amended. For every index i, momentTransfer returns
  moment[i] - (A + D - b/1000) * normal[i] with A = 0.028829 m and the fixed D = 0.07104 m
  for every article; in datasplit, b is the entry of the table B for the run
  (98.42, 98.42, 99.27, 127.00, 146.92 mm), the moment is the pitching-moment column in
  newton metres and the normal force is the normal-force column in newtons.
\<close>

theorem momentTransfer_fixed_offset:
  "(length normal = length moment \<longrightarrow>
      (\<exists>r. momentTransfer moment normal b = Inr r \<and> length r = length moment \<and>
           (\<forall>i < length moment.
              r ! i = moment ! i - (0.028829 + 0.07104 - b / 1000) * normal ! i))) \<and>
   (data \<noteq> [] \<and> length data \<le> 5 \<and> (\<forall>d \<in> set data. frame_ok d) \<longrightarrow>
      (\<exists>rs. datasplit data = Inr rs \<and> length rs = length data \<and>
         (\<forall>k < length data. \<exists>r. rs ! k = Obj r \<and>
            (\<forall>i < length (col_q (data ! k)).
               PM r ! i = col_PM_YM (data ! k) ! i * inlbs2Nm -
                 (0.028829 + 0.07104 - [98.42, 98.42, 99.27, 127.00, 146.92] ! k / 1000) *
                 (col_NF_SF (data ! k) ! i * lbf2N)))))"
proof (intro conjI impI)
  assume "length normal = length moment"
  then show "\<exists>r. momentTransfer moment normal b = Inr r \<and> length r = length moment \<and>
           (\<forall>i < length moment.
              r ! i = moment ! i - (0.028829 + 0.07104 - b / 1000) * normal ! i)"
    by (simp add: momentTransfer_eq momentTransfer_A_def momentTransfer_D_def)
next
  assume wf: "data \<noteq> [] \<and> length data \<le> 5 \<and> (\<forall>d \<in> set data. frame_ok d)"
  from wf datasplit_runs [of data] obtain rs where
    rs: "datasplit data = Inr rs" "length rs = length data"
        "Inr (rs ! 0) = map_sum id Obj (datasplit_angle (data ! 0))"
        "\<forall>k < length data. 0 < k \<longrightarrow>
           Inr (rs ! k) = map_sum id Obj (datasplit_velocity (data ! k) k)"
    by blast
  have "\<exists>r. rs ! k = Obj r \<and>
            (\<forall>i < length (col_q (data ! k)).
               PM r ! i = col_PM_YM (data ! k) ! i * inlbs2Nm -
                 (0.028829 + 0.07104 - [98.42, 98.42, 99.27, 127.00, 146.92] ! k / 1000) *
                 (col_NF_SF (data ! k) ! i * lbf2N))"
    if k: "k < length data" for k
  proof (cases "k = 0")
    case True
    from wf k have ok: "frame_ok (data ! 0)" by simp
    from angle_record_fields [OF ok] obtain r where
      r: "datasplit_angle (data ! 0) = Inr r"
         "\<forall>i < length (col_q (data ! 0)).
            PM r ! i = col_PM_YM (data ! 0) ! i * inlbs2Nm -
              (momentTransfer_A + (momentTransfer_D - B ! 0 / 1000)) *
              (col_NF_SF (data ! 0) ! i * lbf2N)"
      by blast
    from rs(3) r(1) have "rs ! 0 = Obj r" by simp
    with r(2) True show ?thesis
      by (simp add: momentTransfer_A_def momentTransfer_D_def B_def)
  next
    case False
    from wf k have ok: "frame_ok (data ! k)" and k5: "k < 5" by simp_all
    from velocity_record_fields [OF ok k5] obtain r where
      r: "datasplit_velocity (data ! k) k = Inr r"
         "\<forall>i < length (col_q (data ! k)).
            PM r ! i = col_PM_YM (data ! k) ! i * inlbs2Nm -
              (momentTransfer_A + (momentTransfer_D - B ! k / 1000)) *
              (col_NF_SF (data ! k) ! i * lbf2N)"
      by blast
    from rs(4) k False r(1) have "rs ! k = Obj r" by auto
    with r(2) show ?thesis
      by (simp add: momentTransfer_A_def momentTransfer_D_def B_def)
  qed
  with rs(1,2)
  show "\<exists>rs. datasplit data = Inr rs \<and> length rs = length data \<and>
         (\<forall>k < length data. \<exists>r. rs ! k = Obj r \<and>
            (\<forall>i < length (col_q (data ! k)).
               PM r ! i = col_PM_YM (data ! k) ! i * inlbs2Nm -
                 (0.028829 + 0.07104 - [98.42, 98.42, 99.27, 127.00, 146.92] ! k / 1000) *
                 (col_NF_SF (data ! k) ! i * lbf2N)))"
    by blast
qed

theorem momentTransfer_fixed_offset_witness:
  "(\<exists>r. momentTransfer [0] [1] 98.42 = Inr r \<and> r ! 0 = - 0.001449) \<and>
   (\<exists>rs r. datasplit [\<lparr>col_Alpha = [0], col_NF_SF = [1], col_AF_AF2 = [0],
                        col_PM_YM = [0], col_q = [1]\<rparr>] = Inr rs \<and>
           rs ! 0 = Obj r \<and> PM r ! 0 = - (0.001449 * lbf2N))"
proof -
  let ?d = "\<lparr>col_Alpha = [0], col_NF_SF = [1], col_AF_AF2 = [0],
             col_PM_YM = [0], col_q = [1::real]\<rparr>"
  note inst = momentTransfer_fixed_offset [of "[1]" "[0]" "98.42" "[?d]"]
  have wf: "[?d] \<noteq> [] \<and> length [?d] \<le> 5 \<and> (\<forall>d \<in> set [?d]. frame_ok d)"
    by (simp add: frame_ok_def)
  have "length [1::real] = length [0::real]" by simp
  with inst have "\<exists>r. momentTransfer [0] [1] 98.42 = Inr r \<and> r ! 0 = - 0.001449"
    by auto
  moreover
  from inst wf obtain rs where
    rs: "datasplit [?d] = Inr rs"
        "\<forall>k < length [?d]. \<exists>r. rs ! k = Obj r \<and>
            (\<forall>i < length (col_q ([?d] ! k)).
               PM r ! i = col_PM_YM ([?d] ! k) ! i * inlbs2Nm -
                 (0.028829 + 0.07104 - [98.42, 98.42, 99.27, 127.00, 146.92] ! k / 1000) *
                 (col_NF_SF ([?d] ! k) ! i * lbf2N))"
    by blast
  from rs(2) obtain r where
    r: "rs ! 0 = Obj r" "PM r ! 0 = - (0.001449 * lbf2N)"
    by force
  with rs(1) have "\<exists>rs r. datasplit [?d] = Inr rs \<and> rs ! 0 = Obj r \<and>
      PM r ! 0 = - (0.001449 * lbf2N)"
    by blast
  ultimately show ?thesis by blast
qed

text \<open>
  C9. For a fixed moment sequence and a fixed offset b, momentTransfer is linear in the
  normal force: the transfer of k times the normal force, minus the transfer of the zero
  force, is k times the transfer of the normal force minus the transfer of the zero
  force, at every index.
\<close>

theorem momentTransfer_linear_in_normal:
  "length n = length m \<Longrightarrow>
   \<exists>rk r1 r0. momentTransfer m (map (\<lambda>x. k * x) n) g = Inr rk \<and>
              momentTransfer m n g = Inr r1 \<and>
              momentTransfer m (replicate (length m) 0) g = Inr r0 \<and>
              length rk = length m \<and> length r1 = length m \<and> length r0 = length m \<and>
              (\<forall>i < length m. rk ! i - r0 ! i = k * (r1 ! i - r0 ! i))"
  by (simp add: momentTransfer_eq algebra_simps)

theorem momentTransfer_linear_in_normal_witness:
  "length [2 :: real] = length [1 :: real] \<and>
   (\<exists>rk r1 r0. momentTransfer [1] (map (\<lambda>x. 3 * x) [2]) 98.42 = Inr rk \<and>
              momentTransfer [1] [2] 98.42 = Inr r1 \<and>
              momentTransfer [1] (replicate (length [1 :: real]) 0) 98.42 = Inr r0 \<and>
              rk ! 0 - r0 ! 0 = 3 * (r1 ! 0 - r0 ! 0))"
  using momentTransfer_linear_in_normal [of "[2]" "[1]" 3 "98.42"]
  by auto

subsection \<open>Claims about column lengths\<close>

text \<open>
  C8, as stated, says that columns of different lengths raise an error and are never
  truncated. A force column of one sample with a dynamic-pressure column of two samples
  raises nothing: the second pressure sample is ignored.
\<close>

theorem force2coeff_truncates_silently:
  "length [1 :: real] \<noteq> length [1, 2 :: real] \<and> force2coeff [1] [1, 2] = Inr [Some 100]"
  by (simp add: force2coeff_eq force2coeff_S_def)

text \<open>
  C8, amended. No function checks the lengths of its arguments. force2coeff, NA2LD and
  momentTransfer loop over the length of their first argument: when another argument is
  shorter, the read past its end raises a lookup error, and otherwise the result has the
  length of the first argument and the surplus elements of the other arguments are
  never read.
\<close>

theorem column_length_mismatch:
  "force2coeff force q =
     (if length q < length force then Inl LookupError
      else Inr (map (\<lambda>(f, qi). if qi = 0 then None else Some (f / (qi * 0.01)))
                    (zip force q))) \<and>
   NA2LD N A alphaDeg =
     (if length A < length N \<or> length alphaDeg < length N then Inl LookupError
      else Inr (map (\<lambda>(n, a, alpha). NA2LD_cell n a alpha) (zip N (zip A alphaDeg)),
                map (\<lambda>(n, a, alpha). NA2LD_cell n a alpha) (zip N (zip A alphaDeg)))) \<and>
   momentTransfer moment normal b =
     (if length normal < length moment then Inl LookupError
      else Inr (map (\<lambda>(m, nf). m - (0.028829 + (0.07104 - b / 1000)) * nf)
                    (zip moment normal)))"
proof (intro conjI)
  show "force2coeff force q =
     (if length q < length force then Inl LookupError
      else Inr (map (\<lambda>(f, qi). if qi = 0 then None else Some (f / (qi * 0.01)))
                    (zip force q)))"
  proof (cases "length q < length force")
    case True
    then show ?thesis by (simp add: force2coeff_short)
  next
    case False
    then have "length force \<le> length q" by simp
    from force2coeff_eq [OF this] False show ?thesis
      unfolding force2coeff_S_def by simp
  qed
next
  show "NA2LD N A alphaDeg =
     (if length A < length N \<or> length alphaDeg < length N then Inl LookupError
      else Inr (map (\<lambda>(n, a, alpha). NA2LD_cell n a alpha) (zip N (zip A alphaDeg)),
                map (\<lambda>(n, a, alpha). NA2LD_cell n a alpha) (zip N (zip A alphaDeg))))"
  proof (cases "length A < length N \<or> length alphaDeg < length N")
    case True
    then show ?thesis by (simp add: NA2LD_short)
  next
    case False
    then have "length N \<le> length A" "length N \<le> length alphaDeg" by simp_all
    from NA2LD_eq [OF this] False show ?thesis by simp
  qed
next
  show "momentTransfer moment normal b =
     (if length normal < length moment then Inl LookupError
      else Inr (map (\<lambda>(m, nf). m - (0.028829 + (0.07104 - b / 1000)) * nf)
                    (zip moment normal)))"
  proof (cases "length normal < length moment")
    case True
    then show ?thesis by (simp add: momentTransfer_short)
  next
    case False
    then have "length moment \<le> length normal" by simp
    from momentTransfer_eq [OF this] False show ?thesis
      unfolding momentTransfer_A_def momentTransfer_D_def by simp
  qed
qed

subsection \<open>Claims about datasplit\<close>

text \<open>
  C4, as stated, says that the dynamic-pressure column is multiplied by 0.020885. The
  code divides by it: for a velocity run with one row of dynamic pressure 1 and normal
  force 1 lbf, the lift coefficient is 4.44822 / ((1 / 0.020885) * 0.01) and the
  abscissa is the velocity for the pressure 1 / 0.020885, not the values obtained with
  1 * 0.020885.
\<close>

theorem psf2pa_not_a_multiplier:
  "\<exists>r. datasplit_velocity \<lparr>col_Alpha = [0], col_NF_SF = [1], col_AF_AF2 = [1],
                            col_PM_YM = [0], col_q = [1]\<rparr> 1 = Inr r \<and>
       CL r = [Some (4.44822 / (1 / 0.020885 * 0.01))] \<and>
       CL r \<noteq> [Some (4.44822 / (1 * 0.020885 * 0.01))] \<and>
       X r = [sqrt (2 * \<bar>1 / 0.020885\<bar> * 287 * 296.15 / 100914)] \<and>
       X r \<noteq> [sqrt (2 * \<bar>1 * 0.020885\<bar> * 287 * 296.15 / 100914)]"
proof -
  let ?d = "\<lparr>col_Alpha = [0], col_NF_SF = [1], col_AF_AF2 = [1],
             col_PM_YM = [0], col_q = [1::real]\<rparr>"
  have ok: "frame_ok ?d" by (simp add: frame_ok_def)
  have one: "(1::nat) < 5" by simp
  show ?thesis
    unfolding datasplit_velocity_eq [OF ok one]
    by (simp add: series_mul_def series_div_def psf2pa_def lbf2N_def force2coeff_S_def
        q2v_R_def q2v_T_def q2v_p_def)
qed

text \<open>
  C4, amended. Wherever datasplit converts the dynamic-pressure column, for the velocity
  abscissa of the runs after the first and for the coefficients of every run, each
  element is divided by the scalar 0.020885; for well-formed tables the conversion
  raises no error.
\<close>

theorem psf2pa_applied_by_division:
  assumes "data \<noteq> [] \<and> length data \<le> 5 \<and> (\<forall>d \<in> set data. frame_ok d)"
  shows "\<exists>rs. datasplit data = Inr rs \<and> length rs = length data \<and>
    (\<forall>k < length data. \<exists>r. rs ! k = Obj r \<and>
       (\<forall>i < length (col_q (data ! k)).
          (0 < k \<longrightarrow>
             X r ! i = sqrt (2 * \<bar>col_q (data ! k) ! i / 0.020885\<bar> * 287 * 296.15 / 100914)) \<and>
          CL r ! i =
            (if col_q (data ! k) ! i = 0 then None
             else Some ((if k = 0
                         then NA2LD_cell (col_NF_SF (data ! k) ! i * lbf2N)
                                (col_AF_AF2 (data ! k) ! i * lbf2N) (col_Alpha (data ! k) ! i)
                         else col_NF_SF (data ! k) ! i * lbf2N) /
                        (col_q (data ! k) ! i / 0.020885 * 0.01))) \<and>
          CD r ! i =
            (if col_q (data ! k) ! i = 0 then None
             else Some ((if k = 0
                         then NA2LD_cell (col_NF_SF (data ! k) ! i * lbf2N)
                                (col_AF_AF2 (data ! k) ! i * lbf2N) (col_Alpha (data ! k) ! i)
                         else col_AF_AF2 (data ! k) ! i * lbf2N) /
                        (col_q (data ! k) ! i / 0.020885 * 0.01)))))"
proof -
  from datasplit_records [OF assms] obtain rs where
    rs: "datasplit data = Inr rs" "length rs = length data"
        "\<forall>k < length data. \<exists>r. rs ! k = Obj r \<and>
              (if k = 0 then datasplit_angle (data ! k) = Inr r
               else datasplit_velocity (data ! k) k = Inr r)"
    by blast
  have "\<exists>r. rs ! k = Obj r \<and>
       (\<forall>i < length (col_q (data ! k)).
          (0 < k \<longrightarrow>
             X r ! i = sqrt (2 * \<bar>col_q (data ! k) ! i / 0.020885\<bar> * 287 * 296.15 / 100914)) \<and>
          CL r ! i =
            (if col_q (data ! k) ! i = 0 then None
             else Some ((if k = 0
                         then NA2LD_cell (col_NF_SF (data ! k) ! i * lbf2N)
                                (col_AF_AF2 (data ! k) ! i * lbf2N) (col_Alpha (data ! k) ! i)
                         else col_NF_SF (data ! k) ! i * lbf2N) /
                        (col_q (data ! k) ! i / 0.020885 * 0.01))) \<and>
          CD r ! i =
            (if col_q (data ! k) ! i = 0 then None
             else Some ((if k = 0
                         then NA2LD_cell (col_NF_SF (data ! k) ! i * lbf2N)
                                (col_AF_AF2 (data ! k) ! i * lbf2N) (col_Alpha (data ! k) ! i)
                         else col_AF_AF2 (data ! k) ! i * lbf2N) /
                        (col_q (data ! k) ! i / 0.020885 * 0.01))))"
    if k: "k < length data" for k
  proof -
    from assms k have ok: "frame_ok (data ! k)" and k5: "k < 5" by simp_all
    from rs(3) k obtain r where
      r: "rs ! k = Obj r"
         "if k = 0 then datasplit_angle (data ! k) = Inr r
          else datasplit_velocity (data ! k) k = Inr r"
      by blast
    show ?thesis
    proof (cases "k = 0")
      case True
      with r(2) have "datasplit_angle (data ! k) = Inr r" by simp
      with angle_record_fields [OF ok] r(1) True show ?thesis
        unfolding psf2pa_def force2coeff_S_def q2v_R_def q2v_T_def q2v_p_def by auto
    next
      case False
      with r(2) have "datasplit_velocity (data ! k) k = Inr r" by simp
      with velocity_record_fields [OF ok k5] r(1) False show ?thesis
        unfolding psf2pa_def force2coeff_S_def q2v_R_def q2v_T_def q2v_p_def by auto
    qed
  qed
  with rs(1,2) show ?thesis by blast
qed

theorem psf2pa_applied_by_division_witness:
  "\<exists>rs r. datasplit [\<lparr>col_Alpha = [0], col_NF_SF = [0], col_AF_AF2 = [0],
                       col_PM_YM = [0], col_q = [1]\<rparr>,
                      \<lparr>col_Alpha = [0], col_NF_SF = [1], col_AF_AF2 = [3],
                       col_PM_YM = [0], col_q = [2]\<rparr>] = Inr rs \<and>
          rs ! 1 = Obj r \<and>
          X r ! 0 = sqrt (2 * \<bar>2 / 0.020885\<bar> * 287 * 296.15 / 100914) \<and>
          CL r ! 0 = Some (1 * lbf2N / (2 / 0.020885 * 0.01)) \<and>
          CD r ! 0 = Some (3 * lbf2N / (2 / 0.020885 * 0.01))"
proof -
  let ?d0 = "\<lparr>col_Alpha = [0], col_NF_SF = [0], col_AF_AF2 = [0],
              col_PM_YM = [0], col_q = [1::real]\<rparr>"
  let ?d1 = "\<lparr>col_Alpha = [0], col_NF_SF = [1], col_AF_AF2 = [3],
              col_PM_YM = [0], col_q = [2::real]\<rparr>"
  let ?data = "[?d0, ?d1]"
  have wf: "?data \<noteq> [] \<and> length ?data \<le> 5 \<and> (\<forall>d \<in> set ?data. frame_ok d)"
    by (simp add: frame_ok_def)
  from psf2pa_applied_by_division [OF wf] obtain rs where
    rs: "datasplit ?data = Inr rs"
    "\<forall>k < length ?data. \<exists>r. rs ! k = Obj r \<and>
       (\<forall>i < length (col_q (?data ! k)).
          (0 < k \<longrightarrow>
             X r ! i = sqrt (2 * \<bar>col_q (?data ! k) ! i / 0.020885\<bar> * 287 * 296.15 / 100914)) \<and>
          CL r ! i =
            (if col_q (?data ! k) ! i = 0 then None
             else Some ((if k = 0
                         then NA2LD_cell (col_NF_SF (?data ! k) ! i * lbf2N)
                                (col_AF_AF2 (?data ! k) ! i * lbf2N) (col_Alpha (?data ! k) ! i)
                         else col_NF_SF (?data ! k) ! i * lbf2N) /
                        (col_q (?data ! k) ! i / 0.020885 * 0.01))) \<and>
          CD r ! i =
            (if col_q (?data ! k) ! i = 0 then None
             else Some ((if k = 0
                         then NA2LD_cell (col_NF_SF (?data ! k) ! i * lbf2N)
                                (col_AF_AF2 (?data ! k) ! i * lbf2N) (col_Alpha (?data ! k) ! i)
                         else col_AF_AF2 (?data ! k) ! i * lbf2N) /
                        (col_q (?data ! k) ! i / 0.020885 * 0.01))))"
    by blast
  have "(1::nat) < length ?data" by simp
  with rs(2) obtain r where
    r: "rs ! 1 = Obj r"
       "\<forall>i < length (col_q (?data ! 1)).
          (0 < (1::nat) \<longrightarrow>
             X r ! i = sqrt (2 * \<bar>col_q (?data ! 1) ! i / 0.020885\<bar> * 287 * 296.15 / 100914)) \<and>
          CL r ! i =
            (if col_q (?data ! 1) ! i = 0 then None
             else Some ((if (1::nat) = 0
                         then NA2LD_cell (col_NF_SF (?data ! 1) ! i * lbf2N)
                                (col_AF_AF2 (?data ! 1) ! i * lbf2N) (col_Alpha (?data ! 1) ! i)
                         else col_NF_SF (?data ! 1) ! i * lbf2N) /
                        (col_q (?data ! 1) ! i / 0.020885 * 0.01))) \<and>
          CD r ! i =
            (if col_q (?data ! 1) ! i = 0 then None
             else Some ((if (1::nat) = 0
                         then NA2LD_cell (col_NF_SF (?data ! 1) ! i * lbf2N)
                                (col_AF_AF2 (?data ! 1) ! i * lbf2N) (col_Alpha (?data ! 1) ! i)
                         else col_AF_AF2 (?data ! 1) ! i * lbf2N) /
                        (col_q (?data ! 1) ! i / 0.020885 * 0.01)))"
    by blast
  from r(2) have
    "X r ! 0 = sqrt (2 * \<bar>2 / 0.020885\<bar> * 287 * 296.15 / 100914) \<and>
     CL r ! 0 = Some (1 * lbf2N / (2 / 0.020885 * 0.01)) \<and>
     CD r ! 0 = Some (3 * lbf2N / (2 / 0.020885 * 0.01))"
    by simp
  with rs(1) r(1) show ?thesis by blast
qed

text \<open>
  C7. For one to five input tables whose columns all have the same number n of rows per
  table, datasplit returns one record per table, the six fields of each record have
  length n, and entry i of every field is computed from row i of the table alone.
\<close>

theorem datasplit_fields_aligned:
  assumes "data \<noteq> [] \<and> length data \<le> 5 \<and> (\<forall>d \<in> set data. frame_ok d)"
  shows "\<exists>rs. datasplit data = Inr rs \<and> length rs = length data \<and>
    (\<forall>k < length data. \<exists>r. rs ! k = Obj r \<and>
       length (X r) = length (col_q (data ! k)) \<and>
       length (NF r) = length (col_q (data ! k)) \<and>
       length (AF r) = length (col_q (data ! k)) \<and>
       length (PM r) = length (col_q (data ! k)) \<and>
       length (CL r) = length (col_q (data ! k)) \<and>
       length (CD r) = length (col_q (data ! k)) \<and>
       (\<forall>i < length (col_q (data ! k)).
          X r ! i =
            (if k = 0 then col_Alpha (data ! k) ! i
             else sqrt ((2 * \<bar>col_q (data ! k) ! i / psf2pa\<bar> * q2v_R * q2v_T) / q2v_p)) \<and>
          NF r ! i = col_NF_SF (data ! k) ! i * lbf2N \<and>
          AF r ! i = col_AF_AF2 (data ! k) ! i * lbf2N \<and>
          PM r ! i = col_PM_YM (data ! k) ! i * inlbs2Nm -
            (momentTransfer_A + (momentTransfer_D - B ! k / 1000)) *
            (col_NF_SF (data ! k) ! i * lbf2N) \<and>
          CL r ! i =
            (if col_q (data ! k) ! i = 0 then None
             else Some ((if k = 0
                         then NA2LD_cell (col_NF_SF (data ! k) ! i * lbf2N)
                                (col_AF_AF2 (data ! k) ! i * lbf2N) (col_Alpha (data ! k) ! i)
                         else col_NF_SF (data ! k) ! i * lbf2N) /
                        (col_q (data ! k) ! i / psf2pa * force2coeff_S))) \<and>
          CD r ! i =
            (if col_q (data ! k) ! i = 0 then None
             else Some ((if k = 0
                         then NA2LD_cell (col_NF_SF (data ! k) ! i * lbf2N)
                                (col_AF_AF2 (data ! k) ! i * lbf2N) (col_Alpha (data ! k) ! i)
                         else col_AF_AF2 (data ! k) ! i * lbf2N) /
                        (col_q (data ! k) ! i / psf2pa * force2coeff_S)))))"
proof -
  from datasplit_records [OF assms] obtain rs where
    rs: "datasplit data = Inr rs" "length rs = length data"
        "\<forall>k < length data. \<exists>r. rs ! k = Obj r \<and>
              (if k = 0 then datasplit_angle (data ! k) = Inr r
               else datasplit_velocity (data ! k) k = Inr r)"
    by blast
  have "\<exists>r. rs ! k = Obj r \<and>
       length (X r) = length (col_q (data ! k)) \<and>
       length (NF r) = length (col_q (data ! k)) \<and>
       length (AF r) = length (col_q (data ! k)) \<and>
       length (PM r) = length (col_q (data ! k)) \<and>
       length (CL r) = length (col_q (data ! k)) \<and>
       length (CD r) = length (col_q (data ! k)) \<and>
       (\<forall>i < length (col_q (data ! k)).
          X r ! i =
            (if k = 0 then col_Alpha (data ! k) ! i
             else sqrt ((2 * \<bar>col_q (data ! k) ! i / psf2pa\<bar> * q2v_R * q2v_T) / q2v_p)) \<and>
          NF r ! i = col_NF_SF (data ! k) ! i * lbf2N \<and>
          AF r ! i = col_AF_AF2 (data ! k) ! i * lbf2N \<and>
          PM r ! i = col_PM_YM (data ! k) ! i * inlbs2Nm -
            (momentTransfer_A + (momentTransfer_D - B ! k / 1000)) *
            (col_NF_SF (data ! k) ! i * lbf2N) \<and>
          CL r ! i =
            (if col_q (data ! k) ! i = 0 then None
             else Some ((if k = 0
                         then NA2LD_cell (col_NF_SF (data ! k) ! i * lbf2N)
                                (col_AF_AF2 (data ! k) ! i * lbf2N) (col_Alpha (data ! k) ! i)
                         else col_NF_SF (data ! k) ! i * lbf2N) /
                        (col_q (data ! k) ! i / psf2pa * force2coeff_S))) \<and>
          CD r ! i =
            (if col_q (data ! k) ! i = 0 then None
             else Some ((if k = 0
                         then NA2LD_cell (col_NF_SF (data ! k) ! i * lbf2N)
                                (col_AF_AF2 (data ! k) ! i * lbf2N) (col_Alpha (data ! k) ! i)
                         else col_AF_AF2 (data ! k) ! i * lbf2N) /
                        (col_q (data ! k) ! i / psf2pa * force2coeff_S))))"
    if k: "k < length data" for k
  proof -
    from assms k have ok: "frame_ok (data ! k)" and k5: "k < 5" by simp_all
    from rs(3) k obtain r where
      r: "rs ! k = Obj r"
         "if k = 0 then datasplit_angle (data ! k) = Inr r
          else datasplit_velocity (data ! k) k = Inr r"
      by blast
    show ?thesis
    proof (cases "k = 0")
      case True
      with r(2) have "datasplit_angle (data ! k) = Inr r" by simp
      with angle_record_fields [OF ok] r(1) True show ?thesis by auto
    next
      case False
      with r(2) have "datasplit_velocity (data ! k) k = Inr r" by simp
      with velocity_record_fields [OF ok k5] r(1) False show ?thesis by auto
    qed
  qed
  with rs(1,2) show ?thesis by blast
qed

theorem datasplit_fields_aligned_witness:
  "\<exists>rs r. datasplit [\<lparr>col_Alpha = [5, 6], col_NF_SF = [1, 2], col_AF_AF2 = [3, 4],
                       col_PM_YM = [7, 8], col_q = [0, 9]\<rparr>] = Inr rs \<and>
          length rs = 1 \<and> rs ! 0 = Obj r \<and>
          length (X r) = 2 \<and> length (NF r) = 2 \<and> length (AF r) = 2 \<and>
          length (PM r) = 2 \<and> length (CL r) = 2 \<and> length (CD r) = 2 \<and>
          X r ! 1 = 6 \<and> NF r ! 1 = 2 * lbf2N \<and> AF r ! 1 = 4 * lbf2N \<and>
          CL r ! 0 = None \<and> CD r ! 0 = None"
proof -
  let ?d = "\<lparr>col_Alpha = [5, 6], col_NF_SF = [1, 2], col_AF_AF2 = [3, 4],
             col_PM_YM = [7, 8], col_q = [0, 9::real]\<rparr>"
  have wf: "[?d] \<noteq> [] \<and> length [?d] \<le> 5 \<and> (\<forall>d \<in> set [?d]. frame_ok d)"
    by (simp add: frame_ok_def)
  from datasplit_fields_aligned [OF wf] obtain rs where
    rs: "datasplit [?d] = Inr rs" "length rs = length [?d]"
    and "\<forall>k < length [?d]. \<exists>r. rs ! k = Obj r \<and>
       length (X r) = length (col_q ([?d] ! k)) \<and>
       length (NF r) = length (col_q ([?d] ! k)) \<and>
       length (AF r) = length (col_q ([?d] ! k)) \<and>
       length (PM r) = length (col_q ([?d] ! k)) \<and>
       length (CL r) = length (col_q ([?d] ! k)) \<and>
       length (CD r) = length (col_q ([?d] ! k)) \<and>
       (\<forall>i < length (col_q ([?d] ! k)).
          X r ! i =
            (if k = 0 then col_Alpha ([?d] ! k) ! i
             else sqrt ((2 * \<bar>col_q ([?d] ! k) ! i / psf2pa\<bar> * q2v_R * q2v_T) / q2v_p)) \<and>
          NF r ! i = col_NF_SF ([?d] ! k) ! i * lbf2N \<and>
          AF r ! i = col_AF_AF2 ([?d] ! k) ! i * lbf2N \<and>
          PM r ! i = col_PM_YM ([?d] ! k) ! i * inlbs2Nm -
            (momentTransfer_A + (momentTransfer_D - B ! k / 1000)) *
            (col_NF_SF ([?d] ! k) ! i * lbf2N) \<and>
          CL r ! i =
            (if col_q ([?d] ! k) ! i = 0 then None
             else Some ((if k = 0
                         then NA2LD_cell (col_NF_SF ([?d] ! k) ! i * lbf2N)
                                (col_AF_AF2 ([?d] ! k) ! i * lbf2N) (col_Alpha ([?d] ! k) ! i)
                         else col_NF_SF ([?d] ! k) ! i * lbf2N) /
                        (col_q ([?d] ! k) ! i / psf2pa * force2coeff_S))) \<and>
          CD r ! i =
            (if col_q ([?d] ! k) ! i = 0 then None
             else Some ((if k = 0
                         then NA2LD_cell (col_NF_SF ([?d] ! k) ! i * lbf2N)
                                (col_AF_AF2 ([?d] ! k) ! i * lbf2N) (col_Alpha ([?d] ! k) ! i)
                         else col_AF_AF2 ([?d] ! k) ! i * lbf2N) /
                        (col_q ([?d] ! k) ! i / psf2pa * force2coeff_S))))"
    by blast
  then obtain r where
    r: "rs ! 0 = Obj r"
       "length (X r) = 2 \<and> length (NF r) = 2 \<and> length (AF r) = 2 \<and>
        length (PM r) = 2 \<and> length (CL r) = 2 \<and> length (CD r) = 2 \<and>
        X r ! 1 = 6 \<and> NF r ! 1 = 2 * lbf2N \<and> AF r ! 1 = 4 * lbf2N \<and>
        CL r ! 0 = None \<and> CD r ! 0 = None"
    by force
  with rs show ?thesis by auto
qed

end
